theory Spec2Isabelle
  imports Main
begin

section \<open>Python values, exceptions and logging\<close>

text \<open>
  The module \<open>catan/grid.py\<close> stores every coordinate and every offset as a Python
  tuple of integers, and returns the integer \<open>-1\<close> where a tile lookup fails. The
  two kinds of value meet in the same variables, so a coordinate is a \<open>pyval\<close>.
\<close>

datatype pyval = PInt int | PTuple "int list"

text \<open>The exceptions the module can raise; \<open>GenericException\<close> is \<open>raise Exception(...)\<close>.\<close>

datatype exn = TypeError | ValueError | GenericException

datatype level = DEBUG | WARNING | CRITICAL

text \<open>
  A log record is the level and the format template of the message; the rendered
  arguments are not kept. A computation returns the records it logged, in order, and
  either the exception it raised or its value.
\<close>

type_synonym log_record = "level \<times> string"

type_synonym 'a py = "log_record list \<times> (exn + 'a)"

definition py_return :: "'a \<Rightarrow> 'a py" where
  "py_return x = ([], Inr x)"

definition py_raise :: "exn \<Rightarrow> 'a py" where
  "py_raise e = ([], Inl e)"

definition py_lift :: "exn + 'a \<Rightarrow> 'a py" where
  "py_lift r = ([], r)"

definition py_log :: "level \<Rightarrow> string \<Rightarrow> unit py" where
  "py_log lvl msg = ([(lvl, msg)], Inr ())"

definition py_bind :: "'a py \<Rightarrow> ('a \<Rightarrow> 'b py) \<Rightarrow> 'b py" where
  "py_bind m f =
     (case m of
        (l, Inl e) \<Rightarrow> (l, Inl e)
      | (l, Inr x) \<Rightarrow> (case f x of (l', r) \<Rightarrow> (l @ l', r)))"

subsection \<open>Operators on values\<close>

text \<open>
  \<open>x + y\<close>: integers add, tuples concatenate, and an integer with a tuple is a
  TypeError. \<open>x - y\<close>: integers subtract; a tuple has no subtraction, so every other
  combination is a TypeError.
\<close>

fun py_add :: "pyval \<Rightarrow> pyval \<Rightarrow> exn + pyval" where
  "py_add (PInt a) (PInt b) = Inr (PInt (a + b))"
| "py_add (PTuple xs) (PTuple ys) = Inr (PTuple (xs @ ys))"
| "py_add _ _ = Inl TypeError"

fun py_sub :: "pyval \<Rightarrow> pyval \<Rightarrow> exn + pyval" where
  "py_sub (PInt a) (PInt b) = Inr (PInt (a - b))"
| "py_sub _ _ = Inl TypeError"

text \<open>
  \<open>'{:x}'.format(v)\<close> and \<open>hex(v)\<close> render an integer and raise TypeError on a
  tuple. Only whether they succeed matters to the caller.
\<close>

fun py_format_x :: "pyval \<Rightarrow> exn + unit" where
  "py_format_x (PInt _) = Inr ()"
| "py_format_x (PTuple _) = Inl TypeError"

fun py_hex :: "pyval \<Rightarrow> exn + unit" where
  "py_hex (PInt _) = Inr ()"
| "py_hex (PTuple _) = Inl TypeError"

text \<open>
  \<open>a, b = v\<close>: a tuple of two components unpacks, a tuple of any other length is a
  ValueError, an integer is not iterable (TypeError).
\<close>

fun py_unpack2 :: "pyval \<Rightarrow> exn + (int \<times> int)" where
  "py_unpack2 (PTuple [a, b]) = Inr (a, b)"
| "py_unpack2 (PTuple _) = Inl ValueError"
| "py_unpack2 (PInt _) = Inl TypeError"

section \<open>The tables\<close>

definition EDGE :: int where "EDGE = 0"
definition NODE :: int where "NODE = 1"
definition TILE :: int where "TILE = 2"

text \<open>
  The dictionaries are association lists in the order of the source literal, which is
  the order in which a Python dict iterates.
\<close>

definition tile_id_to_coord_dict :: "(int \<times> pyval) list" where
  "tile_id_to_coord_dict =
     [(1, PTuple [9, 3]), (12, PTuple [13, 3]), (11, PTuple [17, 3]),
      (2, PTuple [7, 5]), (13, PTuple [11, 5]), (18, PTuple [15, 5]), (10, PTuple [19, 5]),
      (3, PTuple [5, 7]), (14, PTuple [9, 7]), (19, PTuple [13, 7]), (17, PTuple [17, 7]),
      (9, PTuple [21, 7]),
      (4, PTuple [7, 9]), (15, PTuple [11, 9]), (16, PTuple [15, 9]), (8, PTuple [19, 9]),
      (5, PTuple [9, 11]), (6, PTuple [13, 11]), (7, PTuple [17, 11])]"

definition tile_tile_offsets :: "(pyval \<times> string) list" where
  "tile_tile_offsets =
     [(PTuple [-2, -2], ''NW''),
      (PTuple [-4, 0], ''W''),
      (PTuple [-2, 2], ''SW''),
      (PTuple [2, 2], ''SE''),
      (PTuple [4, 0], ''E''),
      (PTuple [2, -2], ''NE'')]"

definition tile_node_offsets :: "(pyval \<times> string) list" where
  "tile_node_offsets =
     [(PTuple [0, -1], ''N''),
      (PTuple [-2, -1], ''NW''),
      (PTuple [-2, 1], ''SW''),
      (PTuple [0, 1], ''S''),
      (PTuple [2, 1], ''SE''),
      (PTuple [2, -1], ''NE'')]"

definition tile_edge_offsets :: "(pyval \<times> string) list" where
  "tile_edge_offsets =
     [(PTuple [-1, -1], ''NW''),
      (PTuple [-2, 0], ''W''),
      (PTuple [-1, 1], ''SW''),
      (PTuple [1, 1], ''SE''),
      (PTuple [2, 0], ''E''),
      (PTuple [1, -1], ''NE'')]"

section \<open>Tile lookups\<close>

text \<open>
  \<open>tile_id_to_coord\<close>: the KeyError of the lookup is caught, a critical record is
  logged and \<open>-1\<close> is returned.
\<close>

definition tile_id_to_coord :: "int \<Rightarrow> pyval py" where
  "tile_id_to_coord tile_id =
     (case map_of tile_id_to_coord_dict tile_id of
        Some c \<Rightarrow> py_return c
      | None \<Rightarrow>
          py_bind (py_log CRITICAL ''Attempted conversion of non-existent tile_id={}'')
            (\<lambda>_. py_return (PInt (- 1))))"

text \<open>
  \<open>tile_id_from_coord\<close>: the first item whose coordinate equals the argument; after the
  loop the message is built with \<open>hex(coord)\<close> before the exception is raised.
\<close>

fun tile_id_from_coord_loop :: "(int \<times> pyval) list \<Rightarrow> pyval \<Rightarrow> exn + int" where
  "tile_id_from_coord_loop [] coord =
     (case py_hex coord of Inl e \<Rightarrow> Inl e | Inr _ \<Rightarrow> Inl GenericException)"
| "tile_id_from_coord_loop ((i, c) # items) coord =
     (if c = coord then Inr i else tile_id_from_coord_loop items coord)"

definition tile_id_from_coord :: "pyval \<Rightarrow> exn + int" where
  "tile_id_from_coord coord = tile_id_from_coord_loop tile_id_to_coord_dict coord"

definition legal_tile_ids :: "int set" where
  "legal_tile_ids = set (map fst tile_id_to_coord_dict)"

definition legal_tile_coords :: "pyval set" where
  "legal_tile_coords = set (map snd tile_id_to_coord_dict)"

section \<open>Offsets to directions\<close>

text \<open>
  On a missing key the message is formatted with \<open>{:x}\<close> first, then logged, then the
  marker \<open>'ZZ'\<close> is returned.
\<close>

definition tile_tile_offset_to_direction :: "pyval \<Rightarrow> string py" where
  "tile_tile_offset_to_direction offset =
     (case map_of tile_tile_offsets offset of
        Some d \<Rightarrow> py_return d
      | None \<Rightarrow>
          py_bind (py_lift (py_format_x offset)) (\<lambda>_.
          py_bind (py_log CRITICAL
            ''Attempted getting direction of non-existent tile-tile offset={:x}'') (\<lambda>_.
          py_return ''ZZ'')))"

definition tile_node_offset_to_direction :: "pyval \<Rightarrow> string py" where
  "tile_node_offset_to_direction offset =
     (case map_of tile_node_offsets offset of
        Some d \<Rightarrow> py_return d
      | None \<Rightarrow>
          py_bind (py_lift (py_format_x offset)) (\<lambda>_.
          py_bind (py_log CRITICAL
            ''Attempted getting direction of non-existent tile-node offset={:x}'') (\<lambda>_.
          py_return ''ZZ'')))"

definition tile_edge_offset_to_direction :: "pyval \<Rightarrow> string py" where
  "tile_edge_offset_to_direction offset =
     (case map_of tile_edge_offsets offset of
        Some d \<Rightarrow> py_return d
      | None \<Rightarrow>
          py_bind (py_lift (py_format_x offset)) (\<lambda>_.
          py_bind (py_log CRITICAL
            ''Attempted getting direction of non-existent tile-edge offset={:x}'') (\<lambda>_.
          py_return ''ZZ'')))"

section \<open>Adjacency\<close>

text \<open>
  \<open>tile_id_in_direction\<close>: the loop over the items of the tile-tile table; an item
  whose direction matches adds its offset to the tile's coordinate with \<open>+\<close> and
  returns when the sum is a legal tile coordinate, otherwise the loop goes on.
\<close>

fun tile_id_in_direction_loop ::
  "pyval \<Rightarrow> string \<Rightarrow> (pyval \<times> string) list \<Rightarrow> int option py" where
  "tile_id_in_direction_loop coord_from direction [] = py_return None"
| "tile_id_in_direction_loop coord_from direction ((offset, dirn) # items) =
     (if dirn = direction then
        py_bind (py_lift (py_add coord_from offset)) (\<lambda>coord_to.
          if coord_to \<in> legal_tile_coords then
            py_bind (py_lift (tile_id_from_coord coord_to)) (\<lambda>i. py_return (Some i))
          else tile_id_in_direction_loop coord_from direction items)
      else tile_id_in_direction_loop coord_from direction items)"

definition tile_id_in_direction :: "int \<Rightarrow> string \<Rightarrow> int option py" where
  "tile_id_in_direction from_tile_id direction =
     py_bind (tile_id_to_coord from_tile_id) (\<lambda>coord_from.
       tile_id_in_direction_loop coord_from direction tile_tile_offsets)"

definition direction_to_tile :: "int \<Rightarrow> int \<Rightarrow> string py" where
  "direction_to_tile from_tile_id to_tile_id =
     py_bind (tile_id_to_coord from_tile_id) (\<lambda>coord_from.
     py_bind (tile_id_to_coord to_tile_id) (\<lambda>coord_to.
     py_bind (py_lift (py_sub coord_to coord_from)) (\<lambda>offset.
       tile_tile_offset_to_direction offset)))"

text \<open>
  \<open>edges_touching_tile\<close> and \<open>nodes_touching_tile\<close>: one \<open>coord + offset\<close> for each
  key of the offset table, appended in the table's order.
\<close>

fun edges_touching_tile_loop :: "pyval \<Rightarrow> pyval list \<Rightarrow> pyval list \<Rightarrow> pyval list py" where
  "edges_touching_tile_loop coord [] edges = py_return edges"
| "edges_touching_tile_loop coord (offset # offsets) edges =
     py_bind (py_lift (py_add coord offset)) (\<lambda>e.
       edges_touching_tile_loop coord offsets (edges @ [e]))"

definition edges_touching_tile :: "int \<Rightarrow> pyval list py" where
  "edges_touching_tile tile_id =
     py_bind (tile_id_to_coord tile_id) (\<lambda>coord.
       edges_touching_tile_loop coord (map fst tile_edge_offsets) [])"

fun nodes_touching_tile_loop :: "pyval \<Rightarrow> pyval list \<Rightarrow> pyval list \<Rightarrow> pyval list py" where
  "nodes_touching_tile_loop coord [] nodes = py_return nodes"
| "nodes_touching_tile_loop coord (offset # offsets) nodes =
     py_bind (py_lift (py_add coord offset)) (\<lambda>n.
       nodes_touching_tile_loop coord offsets (nodes @ [n]))"

definition nodes_touching_tile :: "int \<Rightarrow> pyval list py" where
  "nodes_touching_tile tile_id =
     py_bind (tile_id_to_coord tile_id) (\<lambda>coord.
       nodes_touching_tile_loop coord (map fst tile_node_offsets) [])"

text \<open>\<open>nodes_touching_edge\<close> unpacks its argument; \<open>%\<close> on integers is \<open>mod\<close>.\<close>

definition nodes_touching_edge :: "pyval \<Rightarrow> exn + pyval list" where
  "nodes_touching_edge edge_coord =
     (case py_unpack2 edge_coord of
        Inl e \<Rightarrow> Inl e
      | Inr (a, b) \<Rightarrow>
          if a mod 2 = 0 then Inr [PTuple [a + 1, b], PTuple [a - 1, b]]
          else Inr [PTuple [a, b - 1], PTuple [a, b + 1]])"

text \<open>
  \<open>coastal_edges\<close>: for each touching edge the direction of \<open>edge_coord - tile_coord\<close>
  is looked up and the edge is kept when no tile lies in that direction.
\<close>

fun coastal_edges_loop :: "int \<Rightarrow> pyval \<Rightarrow> pyval list \<Rightarrow> pyval list \<Rightarrow> pyval list py" where
  "coastal_edges_loop tile_id tile_coord [] edges = py_return edges"
| "coastal_edges_loop tile_id tile_coord (edge_coord # rest) edges =
     py_bind (py_lift (py_sub edge_coord tile_coord)) (\<lambda>offset.
     py_bind (tile_edge_offset_to_direction offset) (\<lambda>dirn.
     py_bind (tile_id_in_direction tile_id dirn) (\<lambda>r.
       if r = None then coastal_edges_loop tile_id tile_coord rest (edges @ [edge_coord])
       else coastal_edges_loop tile_id tile_coord rest edges)))"

definition coastal_edges :: "int \<Rightarrow> pyval list py" where
  "coastal_edges tile_id =
     py_bind (tile_id_to_coord tile_id) (\<lambda>tile_coord.
     py_bind (edges_touching_tile tile_id) (\<lambda>touching.
       coastal_edges_loop tile_id tile_coord touching []))"

text \<open>
  \<open>edge_coord_in_direction\<close> and \<open>node_coord_in_direction\<close>: the first touching
  coordinate whose offset has the wanted direction, a ValueError when there is none.
  The direction is \<open>None\<close> when \<open>from_location\<close> passes its default on.
\<close>

fun edge_coord_in_direction_loop :: "pyval \<Rightarrow> string option \<Rightarrow> pyval list \<Rightarrow> pyval py" where
  "edge_coord_in_direction_loop tile_coord direction [] = py_raise ValueError"
| "edge_coord_in_direction_loop tile_coord direction (edge_coord # rest) =
     py_bind (py_lift (py_sub edge_coord tile_coord)) (\<lambda>offset.
     py_bind (tile_edge_offset_to_direction offset) (\<lambda>dirn.
       if Some dirn = direction then py_return edge_coord
       else edge_coord_in_direction_loop tile_coord direction rest))"

definition edge_coord_in_direction :: "int \<Rightarrow> string option \<Rightarrow> pyval py" where
  "edge_coord_in_direction tile_id direction =
     py_bind (tile_id_to_coord tile_id) (\<lambda>tile_coord.
     py_bind (edges_touching_tile tile_id) (\<lambda>touching.
       edge_coord_in_direction_loop tile_coord direction touching))"

fun node_coord_in_direction_loop :: "pyval \<Rightarrow> string option \<Rightarrow> pyval list \<Rightarrow> pyval py" where
  "node_coord_in_direction_loop tile_coord direction [] = py_raise ValueError"
| "node_coord_in_direction_loop tile_coord direction (node_coord # rest) =
     py_bind (py_lift (py_sub node_coord tile_coord)) (\<lambda>offset.
     py_bind (tile_node_offset_to_direction offset) (\<lambda>dirn.
       if Some dirn = direction then py_return node_coord
       else node_coord_in_direction_loop tile_coord direction rest))"

definition node_coord_in_direction :: "int \<Rightarrow> string option \<Rightarrow> pyval py" where
  "node_coord_in_direction tile_id direction =
     py_bind (tile_id_to_coord tile_id) (\<lambda>tile_coord.
     py_bind (nodes_touching_tile tile_id) (\<lambda>touching.
       node_coord_in_direction_loop tile_coord direction touching))"

text \<open>
  \<open>from_location\<close> returns a coordinate, or \<open>None\<close> for an unsupported type.
\<close>

definition from_location :: "int \<Rightarrow> int \<Rightarrow> string option \<Rightarrow> pyval option py" where
  "from_location hexgrid_type tile_id direction =
     (if hexgrid_type = TILE then
        (if direction \<noteq> None then py_raise ValueError
         else py_bind (tile_id_to_coord tile_id) (\<lambda>c. py_return (Some c)))
      else if hexgrid_type = NODE then
        py_bind (node_coord_in_direction tile_id direction) (\<lambda>c. py_return (Some c))
      else if hexgrid_type = EDGE then
        py_bind (edge_coord_in_direction tile_id direction) (\<lambda>c. py_return (Some c))
      else
        py_bind (py_log WARNING ''unsupported hexgrid_type={}'') (\<lambda>_. py_return None))"

section \<open>Board enumeration\<close>

text \<open>
  \<open>legal_edge_coords\<close> and \<open>legal_node_coords\<close> add every touching coordinate of every
  legal tile to a set, log a debug record and return the set. The tiles are visited in
  ascending order of id; no visit of a legal tile raises or logs, so the order does not
  show in the result.
\<close>

fun legal_edge_coords_loop :: "int list \<Rightarrow> pyval set \<Rightarrow> pyval set py" where
  "legal_edge_coords_loop [] edges = py_return edges"
| "legal_edge_coords_loop (tile_id # tile_ids) edges =
     py_bind (edges_touching_tile tile_id) (\<lambda>touching.
       legal_edge_coords_loop tile_ids (fold insert touching edges))"

definition legal_edge_coords :: "pyval set py" where
  "legal_edge_coords =
     py_bind (legal_edge_coords_loop (sorted_list_of_set legal_tile_ids) {}) (\<lambda>edges.
     py_bind (py_log DEBUG ''Legal edge coords({})={}'') (\<lambda>_.
     py_return edges))"

fun legal_node_coords_loop :: "int list \<Rightarrow> pyval set \<Rightarrow> pyval set py" where
  "legal_node_coords_loop [] nodes = py_return nodes"
| "legal_node_coords_loop (tile_id # tile_ids) nodes =
     py_bind (nodes_touching_tile tile_id) (\<lambda>touching.
       legal_node_coords_loop tile_ids (fold insert touching nodes))"

definition legal_node_coords :: "pyval set py" where
  "legal_node_coords =
     py_bind (legal_node_coords_loop (sorted_list_of_set legal_tile_ids) {}) (\<lambda>nodes.
     py_bind (py_log DEBUG ''Legal node coords({})={}'') (\<lambda>_.
     py_return nodes))"

section \<open>Evaluation lemmas\<close>

lemmas py_monad_defs = py_return_def py_raise_def py_lift_def py_log_def py_bind_def

lemmas table_defs = tile_id_to_coord_dict_def tile_tile_offsets_def tile_node_offsets_def
  tile_edge_offsets_def

lemma dict_distinct:
  "distinct (map fst tile_id_to_coord_dict)" "distinct (map snd tile_id_to_coord_dict)"
  by (simp_all add: tile_id_to_coord_dict_def)

lemma dict_values_pairs:
  "(t, c) \<in> set tile_id_to_coord_dict \<Longrightarrow> \<exists>x y. c = PTuple [x, y]"
  by (auto simp: tile_id_to_coord_dict_def)

lemma tile_id_from_coord_loop_hit:
  "distinct (map snd items) \<Longrightarrow> (i, c) \<in> set items \<Longrightarrow>
     tile_id_from_coord_loop items c = Inr i"
  by (induction items) (auto simp: rev_image_eqI)

lemma tile_id_to_coord_legal:
  assumes "t \<in> legal_tile_ids"
  obtains c where "(t, c) \<in> set tile_id_to_coord_dict"
    and "map_of tile_id_to_coord_dict t = Some c"
    and "tile_id_to_coord t = ([], Inr c)"
proof -
  from assms have "map_of tile_id_to_coord_dict t \<noteq> None"
    by (simp add: legal_tile_ids_def map_of_eq_None_iff)
  then obtain c where c: "map_of tile_id_to_coord_dict t = Some c"
    by blast
  then have "(t, c) \<in> set tile_id_to_coord_dict" by (rule map_of_SomeD)
  moreover from c have "tile_id_to_coord t = ([], Inr c)"
    by (simp add: tile_id_to_coord_def py_return_def)
  ultimately show thesis using c by (simp add: that)
qed

lemma tile_id_to_coord_illegal:
  assumes "t \<notin> legal_tile_ids"
  shows "tile_id_to_coord t =
    ([(CRITICAL, ''Attempted conversion of non-existent tile_id={}'')], Inr (PInt (- 1)))"
proof -
  from assms have "map_of tile_id_to_coord_dict t = None"
    by (simp add: legal_tile_ids_def map_of_eq_None_iff)
  then show ?thesis by (simp add: tile_id_to_coord_def py_monad_defs)
qed

lemma tile_id_to_coord_value_in_dict:
  assumes "tile_id_to_coord u = ([], Inr c)"
  shows "(u, c) \<in> set tile_id_to_coord_dict"
proof (cases "map_of tile_id_to_coord_dict u")
  case None
  with assms show ?thesis by (simp add: tile_id_to_coord_def py_monad_defs)
next
  case (Some c')
  with assms have "c' = c" by (simp add: tile_id_to_coord_def py_return_def)
  with Some show ?thesis by (auto dest: map_of_SomeD)
qed

lemma tile_id_to_coord_legal_pair:
  assumes "t \<in> legal_tile_ids"
  obtains x y where "tile_id_to_coord t = ([], Inr (PTuple [x, y]))"
proof -
  from assms obtain c where in_dict: "(t, c) \<in> set tile_id_to_coord_dict"
    and val: "tile_id_to_coord t = ([], Inr c)"
    by (rule tile_id_to_coord_legal)
  from in_dict obtain x y where "c = PTuple [x, y]"
    by (auto dest: dict_values_pairs)
  with val show thesis by (simp add: that)
qed

lemma sorted_legal_tile_ids:
  "sorted_list_of_set legal_tile_ids =
     [1, 2, 3, 4, 5, 6, 7, 8, 9, 10, 11, 12, 13, 14, 15, 16, 17, 18, 19]"
  unfolding legal_tile_ids_def
  by (simp add: sorted_list_of_set_sort_remdups tile_id_to_coord_dict_def)

section \<open>What the tuple operators do on every legal tile\<close>

text \<open>
  A legal tile's coordinate is a tuple of two integers. \<open>coord + offset\<close> is then the
  tuple of four integers that lists the coordinate and then the offset, and
  \<open>coord - coord\<close> raises TypeError. The lemmas below follow this through each
  function, for any legal tile.
\<close>

lemma edges_touching_tile_at:
  assumes "tile_id_to_coord t = ([], Inr (PTuple [x, y]))"
  shows "edges_touching_tile t =
     ([], Inr [PTuple [x, y, - 1, - 1], PTuple [x, y, - 2, 0], PTuple [x, y, - 1, 1],
               PTuple [x, y, 1, 1], PTuple [x, y, 2, 0], PTuple [x, y, 1, - 1]])"
  using assms by (simp add: edges_touching_tile_def py_monad_defs tile_edge_offsets_def)

lemma nodes_touching_tile_at:
  assumes "tile_id_to_coord t = ([], Inr (PTuple [x, y]))"
  shows "nodes_touching_tile t =
     ([], Inr [PTuple [x, y, 0, - 1], PTuple [x, y, - 2, - 1], PTuple [x, y, - 2, 1],
               PTuple [x, y, 0, 1], PTuple [x, y, 2, 1], PTuple [x, y, 2, - 1]])"
  using assms by (simp add: nodes_touching_tile_def py_monad_defs tile_node_offsets_def)

lemma four_tuple_not_legal_tile: "PTuple [x, y, a, b] \<notin> legal_tile_coords"
  by (simp add: legal_tile_coords_def tile_id_to_coord_dict_def)

lemma tile_id_in_direction_legal:
  assumes "t \<in> legal_tile_ids"
  shows "tile_id_in_direction t d = ([], Inr None)"
proof -
  from assms obtain x y where val: "tile_id_to_coord t = ([], Inr (PTuple [x, y]))"
    by (rule tile_id_to_coord_legal_pair)
  show ?thesis
    by (simp add: tile_id_in_direction_def val py_monad_defs tile_tile_offsets_def
        four_tuple_not_legal_tile)
qed

lemma coastal_edges_legal:
  assumes "t \<in> legal_tile_ids"
  shows "coastal_edges t = ([], Inl TypeError)"
proof -
  from assms obtain x y where val: "tile_id_to_coord t = ([], Inr (PTuple [x, y]))"
    by (rule tile_id_to_coord_legal_pair)
  show ?thesis
    by (simp add: coastal_edges_def val edges_touching_tile_at [OF val] py_monad_defs)
qed

lemma direction_to_tile_legal:
  assumes "t \<in> legal_tile_ids" and "u \<in> legal_tile_ids"
  shows "direction_to_tile t u = ([], Inl TypeError)"
proof -
  from assms(1) obtain x y where t: "tile_id_to_coord t = ([], Inr (PTuple [x, y]))"
    by (rule tile_id_to_coord_legal_pair)
  from assms(2) obtain x' y' where u: "tile_id_to_coord u = ([], Inr (PTuple [x', y']))"
    by (rule tile_id_to_coord_legal_pair)
  show ?thesis
    by (simp add: direction_to_tile_def t u py_monad_defs)
qed

lemma legal_edge_coords_value:
  "\<exists>S. legal_edge_coords = ([(DEBUG, ''Legal edge coords({})={}'')], Inr S)
       \<and> card S = 114
       \<and> PTuple [9, 3, - 1, - 1] \<in> S
       \<and> (\<forall>e\<in>S. nodes_touching_edge e = Inl ValueError)"
  by (simp add: legal_edge_coords_def sorted_legal_tile_ids edges_touching_tile_def
      tile_id_to_coord_def py_monad_defs table_defs nodes_touching_edge_def)

lemma legal_node_coords_value:
  "\<exists>S. legal_node_coords = ([(DEBUG, ''Legal node coords({})={}'')], Inr S)
       \<and> card S = 114"
  by (simp add: legal_node_coords_def sorted_legal_tile_ids nodes_touching_tile_def
      tile_id_to_coord_def py_monad_defs table_defs)

section \<open>The claims\<close>

text \<open>
  C1. Tile 1 is at \<open>(9, 3)\<close> and tile 12 at \<open>(13, 3)\<close>, the offset \<open>(4, 0)\<close> is
  direction \<open>E\<close>, and \<open>tile_id_in_direction(1, 'W')\<close> is \<open>None\<close>: all as claimed. But
  \<open>tile_id_in_direction(1, 'E')\<close> is \<open>None\<close> too, not tile 12: \<open>(9, 3) + (4, 0)\<close> is
  the tuple \<open>(9, 3, 4, 0)\<close>, which is no tile coordinate.
\<close>

theorem tile_1_east_neighbour_lost:
  "tile_id_to_coord 1 = ([], Inr (PTuple [9, 3]))
   \<and> tile_id_to_coord 12 = ([], Inr (PTuple [13, 3]))
   \<and> tile_tile_offset_to_direction (PTuple [4, 0]) = ([], Inr ''E'')
   \<and> tile_id_in_direction 1 ''W'' = ([], Inr None)
   \<and> py_add (PTuple [9, 3]) (PTuple [4, 0]) = Inr (PTuple [9, 3, 4, 0])
   \<and> tile_id_in_direction 1 ''E'' = ([], Inr None)"
  by (simp add: tile_id_to_coord_def tile_tile_offset_to_direction_def tile_id_in_direction_def
      legal_tile_coords_def py_monad_defs table_defs)

text \<open>
  C2. \<open>legal_tile_ids()\<close> has 19 elements. \<open>legal_edge_coords()\<close> and
  \<open>legal_node_coords()\<close> each have 114 elements, not 72 and 54: every tile contributes
  six tuples that start with its own coordinate, so no two tiles share one.
\<close>

theorem legal_set_sizes:
  "card legal_tile_ids = 19
   \<and> (\<exists>S. legal_edge_coords = ([(DEBUG, ''Legal edge coords({})={}'')], Inr S)
          \<and> card S = 114)
   \<and> (\<exists>S. legal_node_coords = ([(DEBUG, ''Legal node coords({})={}'')], Inr S)
          \<and> card S = 114)"
proof (intro conjI)
  show "card legal_tile_ids = 19"
    by (simp add: legal_tile_ids_def tile_id_to_coord_dict_def)
  show "\<exists>S. legal_edge_coords = ([(DEBUG, ''Legal edge coords({})={}'')], Inr S)
          \<and> card S = 114"
    using legal_edge_coords_value by blast
  show "\<exists>S. legal_node_coords = ([(DEBUG, ''Legal node coords({})={}'')], Inr S)
          \<and> card S = 114"
    by (rule legal_node_coords_value)
qed

text \<open>
  C3. For every legal tile id \<open>t\<close>, \<open>tile_id_from_coord(tile_id_to_coord(t)) == t\<close>:
  the lookup of \<open>t\<close> returns a coordinate without logging, the reverse lookup of that
  coordinate returns \<open>t\<close>, and no other legal tile has that coordinate.
\<close>

theorem tile_id_roundtrip:
  assumes "t \<in> legal_tile_ids"
  shows "\<exists>c. tile_id_to_coord t = ([], Inr c) \<and> tile_id_from_coord c = Inr t
           \<and> (\<forall>u\<in>legal_tile_ids. tile_id_to_coord u = ([], Inr c) \<longrightarrow> u = t)"
proof -
  from assms obtain c where in_dict: "(t, c) \<in> set tile_id_to_coord_dict"
    and val: "tile_id_to_coord t = ([], Inr c)"
    by (rule tile_id_to_coord_legal)
  have inv: "tile_id_from_coord c = Inr u" if "(u, c) \<in> set tile_id_to_coord_dict" for u
    unfolding tile_id_from_coord_def
    using dict_distinct(2) that by (rule tile_id_from_coord_loop_hit)
  have "u = t" if "tile_id_to_coord u = ([], Inr c)" for u
  proof -
    from that have "(u, c) \<in> set tile_id_to_coord_dict"
      by (rule tile_id_to_coord_value_in_dict)
    then have "tile_id_from_coord c = Inr u" by (rule inv)
    moreover from in_dict have "tile_id_from_coord c = Inr t" by (rule inv)
    ultimately show ?thesis by simp
  qed
  with val inv [OF in_dict] show ?thesis by blast
qed

theorem tile_id_roundtrip_witness:
  "14 \<in> legal_tile_ids \<and>
   (\<exists>c. tile_id_to_coord 14 = ([], Inr c) \<and> tile_id_from_coord c = Inr 14
           \<and> (\<forall>u\<in>legal_tile_ids. tile_id_to_coord u = ([], Inr c) \<longrightarrow> u = 14))"
proof -
  have h: "14 \<in> legal_tile_ids" by (simp add: legal_tile_ids_def tile_id_to_coord_dict_def)
  from h tile_id_roundtrip [OF h] show ?thesis by (rule conjI)
qed

text \<open>
  C4. For tile 1, at \<open>(9, 3)\<close>, \<open>edges_touching_tile\<close> and \<open>nodes_touching_tile\<close> each
  return six distinct values, but each value is the four-component tuple of the
  coordinate followed by an offset, not the componentwise sum: the first edge is
  \<open>(9, 3, -1, -1)\<close> where the sum is \<open>(8, 2)\<close>.
\<close>

theorem touching_tile_concatenates:
  "tile_id_to_coord 1 = ([], Inr (PTuple [9, 3]))
   \<and> edges_touching_tile 1 =
     ([], Inr [PTuple [9, 3, - 1, - 1], PTuple [9, 3, - 2, 0], PTuple [9, 3, - 1, 1],
               PTuple [9, 3, 1, 1], PTuple [9, 3, 2, 0], PTuple [9, 3, 1, - 1]])
   \<and> nodes_touching_tile 1 =
     ([], Inr [PTuple [9, 3, 0, - 1], PTuple [9, 3, - 2, - 1], PTuple [9, 3, - 2, 1],
               PTuple [9, 3, 0, 1], PTuple [9, 3, 2, 1], PTuple [9, 3, 2, - 1]])"
  by (simp add: edges_touching_tile_def nodes_touching_tile_def tile_id_to_coord_def
      py_monad_defs table_defs)

text \<open>
  C5. \<open>coastal_edges(1)\<close> returns no list: the first pass of its loop subtracts the
  tile's coordinate from the first touching edge, both tuples, and the TypeError of
  that subtraction leaves the function.
\<close>

theorem coastal_edges_raises:
  "edges_touching_tile 1 =
     ([], Inr [PTuple [9, 3, - 1, - 1], PTuple [9, 3, - 2, 0], PTuple [9, 3, - 1, 1],
               PTuple [9, 3, 1, 1], PTuple [9, 3, 2, 0], PTuple [9, 3, 1, - 1]])
   \<and> py_sub (PTuple [9, 3, - 1, - 1]) (PTuple [9, 3]) = Inl TypeError
   \<and> coastal_edges 1 = ([], Inl TypeError)"
  by (simp add: coastal_edges_def edges_touching_tile_def tile_id_to_coord_def
      py_monad_defs table_defs)

text \<open>
  C6. For every pair of integers \<open>(a, b)\<close>, on or off the board,
  \<open>nodes_touching_edge\<close> returns \<open>(a+1, b)\<close> and \<open>(a-1, b)\<close> when \<open>a\<close> is even and
  \<open>(a, b-1)\<close> and \<open>(a, b+1)\<close> when \<open>a\<close> is odd.
\<close>

theorem nodes_touching_edge_parity:
  "nodes_touching_edge (PTuple [a, b]) =
     (if even a then Inr [PTuple [a + 1, b], PTuple [a - 1, b]]
      else Inr [PTuple [a, b - 1], PTuple [a, b + 1]])"
  by (simp add: nodes_touching_edge_def even_iff_mod_2_eq_zero)

theorem nodes_touching_edge_parity_witness:
  "nodes_touching_edge (PTuple [100, - 7]) = Inr [PTuple [101, - 7], PTuple [99, - 7]]
   \<and> nodes_touching_edge (PTuple [- 3, 2]) = Inr [PTuple [- 3, 1], PTuple [- 3, 3]]"
  using nodes_touching_edge_parity [of 100 "- 7"] nodes_touching_edge_parity [of "- 3" 2]
  by simp

text \<open>
  C7. \<open>(9, 3, -1, -1)\<close> is a member of \<open>legal_edge_coords()\<close>, and
  \<open>nodes_touching_edge\<close> raises ValueError on it: a tuple of four components does not
  unpack into \<open>a, b\<close>.
\<close>

theorem legal_edge_unpack_fails:
  "(\<exists>S. legal_edge_coords = ([(DEBUG, ''Legal edge coords({})={}'')], Inr S)
        \<and> PTuple [9, 3, - 1, - 1] \<in> S)
   \<and> nodes_touching_edge (PTuple [9, 3, - 1, - 1]) = Inl ValueError"
proof
  show "\<exists>S. legal_edge_coords = ([(DEBUG, ''Legal edge coords({})={}'')], Inr S)
        \<and> PTuple [9, 3, - 1, - 1] \<in> S"
    using legal_edge_coords_value by blast
  show "nodes_touching_edge (PTuple [9, 3, - 1, - 1]) = Inl ValueError"
    by (simp add: nodes_touching_edge_def)
qed

text \<open>
  C8, as stated, fails: tile id 20 is not legal and \<open>tile_id_to_coord(20)\<close> returns
  \<open>-1\<close>; the integer 5 is no key of the tile-tile table and
  \<open>tile_tile_offset_to_direction(5)\<close> returns \<open>'ZZ'\<close>. Neither call raises.
\<close>

theorem sentinel_counterexample:
  "20 \<notin> legal_tile_ids
   \<and> tile_id_to_coord 20 =
       ([(CRITICAL, ''Attempted conversion of non-existent tile_id={}'')], Inr (PInt (- 1)))
   \<and> map_of tile_tile_offsets (PInt 5) = None
   \<and> tile_tile_offset_to_direction (PInt 5) =
       ([(CRITICAL, ''Attempted getting direction of non-existent tile-tile offset={:x}'')],
        Inr ''ZZ'')"
  by (simp add: legal_tile_ids_def tile_id_to_coord_def tile_tile_offset_to_direction_def
      py_monad_defs table_defs)

text \<open>
  C8, amended. \<open>tile_id_to_coord(id)\<close> returns the table's coordinate, a tuple of two
  integers, for exactly the 19 legal ids; for every other id it logs a critical record
  and returns the sentinel \<open>-1\<close>. \<open>tile_tile_offset_to_direction\<close> returns the label
  of each offset in the table; for every integer offset it logs a critical record and
  returns the marker \<open>'ZZ'\<close>.
\<close>

theorem lookup_sentinels:
  "(t \<in> legal_tile_ids \<longrightarrow>
      (\<exists>x y. map_of tile_id_to_coord_dict t = Some (PTuple [x, y])
         \<and> tile_id_to_coord t = ([], Inr (PTuple [x, y]))))
   \<and> (t \<notin> legal_tile_ids \<longrightarrow>
        tile_id_to_coord t =
          ([(CRITICAL, ''Attempted conversion of non-existent tile_id={}'')], Inr (PInt (- 1))))
   \<and> (map_of tile_tile_offsets offset = Some d \<longrightarrow>
        tile_tile_offset_to_direction offset = ([], Inr d))
   \<and> tile_tile_offset_to_direction (PInt n) =
        ([(CRITICAL, ''Attempted getting direction of non-existent tile-tile offset={:x}'')],
         Inr ''ZZ'')"
proof (intro conjI impI)
  assume "t \<in> legal_tile_ids"
  then obtain c where in_dict: "(t, c) \<in> set tile_id_to_coord_dict"
    and look: "map_of tile_id_to_coord_dict t = Some c"
    and val: "tile_id_to_coord t = ([], Inr c)"
    by (rule tile_id_to_coord_legal)
  from in_dict obtain x y where "c = PTuple [x, y]"
    by (auto dest: dict_values_pairs)
  with look val show "\<exists>x y. map_of tile_id_to_coord_dict t = Some (PTuple [x, y])
         \<and> tile_id_to_coord t = ([], Inr (PTuple [x, y]))"
    by simp
next
  assume "t \<notin> legal_tile_ids"
  then show "tile_id_to_coord t =
          ([(CRITICAL, ''Attempted conversion of non-existent tile_id={}'')], Inr (PInt (- 1)))"
    by (rule tile_id_to_coord_illegal)
next
  assume "map_of tile_tile_offsets offset = Some d"
  then show "tile_tile_offset_to_direction offset = ([], Inr d)"
    by (simp add: tile_tile_offset_to_direction_def py_return_def)
next
  have "map_of tile_tile_offsets (PInt n) = None"
    by (simp add: tile_tile_offsets_def)
  then show "tile_tile_offset_to_direction (PInt n) =
        ([(CRITICAL, ''Attempted getting direction of non-existent tile-tile offset={:x}'')],
         Inr ''ZZ'')"
    by (simp add: tile_tile_offset_to_direction_def py_monad_defs)
qed

theorem lookup_sentinels_witness:
  "tile_id_to_coord 1 = ([], Inr (PTuple [9, 3]))
   \<and> tile_id_to_coord 20 =
       ([(CRITICAL, ''Attempted conversion of non-existent tile_id={}'')], Inr (PInt (- 1)))
   \<and> tile_tile_offset_to_direction (PTuple [4, 0]) = ([], Inr ''E'')
   \<and> tile_tile_offset_to_direction (PInt 5) =
        ([(CRITICAL, ''Attempted getting direction of non-existent tile-tile offset={:x}'')],
         Inr ''ZZ'')"
  using lookup_sentinels [of 1 "PTuple [4, 0]" "''E''" 5]
    lookup_sentinels [of 20 "PTuple [4, 0]" "''E''" 5]
  by (simp add: legal_tile_ids_def table_defs)

text \<open>
  C9. Tiles 1 and 12 are adjacent: their coordinates differ by \<open>(4, 0)\<close>, the offset
  of direction \<open>E\<close>. \<open>direction_to_tile(1, 12)\<close> raises TypeError instead of returning
  \<open>'E'\<close>, because it subtracts one tuple from the other.
\<close>

theorem direction_to_tile_raises:
  "tile_id_to_coord 1 = ([], Inr (PTuple [9, 3]))
   \<and> tile_id_to_coord 12 = ([], Inr (PTuple [13, 3]))
   \<and> map_of tile_tile_offsets (PTuple [13 - 9, 3 - 3]) = Some ''E''
   \<and> py_sub (PTuple [13, 3]) (PTuple [9, 3]) = Inl TypeError
   \<and> direction_to_tile 1 12 = ([], Inl TypeError)"
  by (simp add: direction_to_tile_def tile_id_to_coord_def py_monad_defs table_defs)

text \<open>
  C10. \<open>from_location\<close> raises ValueError whenever the type is \<open>TILE\<close> and a direction
  is given, and for every type other than \<open>TILE\<close>, \<open>NODE\<close> and \<open>EDGE\<close> it logs one
  warning and returns \<open>None\<close>, whatever the tile id and the direction are.
\<close>

theorem from_location_dispatch:
  "(direction \<noteq> None \<longrightarrow> from_location TILE tile_id direction = ([], Inl ValueError))
   \<and> (hexgrid_type \<noteq> TILE \<and> hexgrid_type \<noteq> NODE \<and> hexgrid_type \<noteq> EDGE \<longrightarrow>
        from_location hexgrid_type tile_id direction =
          ([(WARNING, ''unsupported hexgrid_type={}'')], Inr None))"
  by (simp add: from_location_def py_monad_defs)

theorem from_location_dispatch_witness:
  "from_location TILE 1 (Some ''NW'') = ([], Inl ValueError)
   \<and> from_location 7 1 (Some ''NW'') =
       ([(WARNING, ''unsupported hexgrid_type={}'')], Inr None)"
  using from_location_dispatch [of "Some ''NW''" 1 7]
  by (simp add: TILE_def NODE_def EDGE_def)

end
